theory Spec2Isabelle
  imports Main
begin

section \<open>The base table: pagination, row slice, columns, layout, scroll affordance\<close>

text \<open>
  A shallow embedding of \<^verbatim>\<open>src/table/base-table/index.tsx\<close>: the computed properties
  \<^verbatim>\<open>current\<close>, \<^verbatim>\<open>pageSize\<close>, \<^verbatim>\<open>dataSource\<close>, \<^verbatim>\<open>isEmpty\<close>, \<^verbatim>\<open>hasFixedColumns\<close>,
  \<^verbatim>\<open>tableHeight\<close>, \<^verbatim>\<open>fixedHeader\<close>, the pagination event handlers, the scroll
  affordance check and the mount and unmount hooks.
\<close>

subsection \<open>JavaScript values\<close>

text \<open>
  A JavaScript number, restricted to the integers and \<^verbatim>\<open>NaN\<close>: page numbers, page sizes,
  pixel heights and scroll offsets are integers here, and arithmetic on them is exact.
  Fractions and the infinities are left out. A value that may be \<^verbatim>\<open>undefined\<close> is an
  option: \<open>None\<close> is \<^verbatim>\<open>undefined\<close>.
\<close>

datatype jsnum = NaN | Num int

text \<open>\<^verbatim>\<open>ToBoolean\<close>: \<^verbatim>\<open>undefined\<close>, \<^verbatim>\<open>NaN\<close> and \<^verbatim>\<open>0\<close> are falsy.\<close>

fun truthy_num :: "jsnum \<Rightarrow> bool" where
  "truthy_num NaN = False"
| "truthy_num (Num n) = (n \<noteq> 0)"

fun truthy :: "jsnum option \<Rightarrow> bool" where
  "truthy None = False"
| "truthy (Some v) = truthy_num v"

text \<open>\<^verbatim>\<open>a || b\<close>: the left operand when it is truthy, the right operand as it is otherwise.\<close>

definition js_or :: "jsnum option \<Rightarrow> jsnum option \<Rightarrow> jsnum option" where
  "js_or a b = (if truthy a then a else b)"

text \<open>\<^verbatim>\<open>ToNumber\<close>: \<^verbatim>\<open>undefined\<close> becomes \<^verbatim>\<open>NaN\<close>.\<close>

fun toNumber :: "jsnum option \<Rightarrow> jsnum" where
  "toNumber None = NaN"
| "toNumber (Some v) = v"

text \<open>Subtraction, multiplication and \<^verbatim>\<open>>\<close>: \<^verbatim>\<open>NaN\<close> is contagious in arithmetic
  and makes every comparison false.\<close>

fun js_sub :: "jsnum \<Rightarrow> jsnum \<Rightarrow> jsnum" where
  "js_sub (Num a) (Num b) = Num (a - b)"
| "js_sub _ _ = NaN"

fun js_mul :: "jsnum \<Rightarrow> jsnum \<Rightarrow> jsnum" where
  "js_mul (Num a) (Num b) = Num (a * b)"
| "js_mul _ _ = NaN"

fun js_gt :: "jsnum \<Rightarrow> jsnum \<Rightarrow> bool" where
  "js_gt (Num a) (Num b) = (a > b)"
| "js_gt _ _ = False"

text \<open>\<^verbatim>\<open>ToIntegerOrInfinity\<close>: \<^verbatim>\<open>NaN\<close> becomes \<^verbatim>\<open>0\<close>.\<close>

fun toInteger :: "jsnum \<Rightarrow> int" where
  "toInteger NaN = 0"
| "toInteger (Num n) = n"

text \<open>
  \<^verbatim>\<open>Array.prototype.slice(start, end)\<close>: a negative index counts from the end, every
  index is clamped into \<^verbatim>\<open>[0, length]\<close>, an \<^verbatim>\<open>end\<close> that is not given (\<open>None\<close>) is the
  length, and the result is a new array of the elements from the first index up to the
  second one, which is excluded.
\<close>

definition relative_index :: "int \<Rightarrow> int \<Rightarrow> int" where
  "relative_index len r = (if r < 0 then max (len + r) 0 else min r len)"

definition js_slice :: "'a list \<Rightarrow> jsnum \<Rightarrow> jsnum option \<Rightarrow> 'a list" where
  "js_slice xs start end =
     (let len = int (length xs);
          k = relative_index len (toInteger start);
          final = (case end of None \<Rightarrow> len | Some e \<Rightarrow> relative_index len (toInteger e))
      in take (nat (max (final - k) 0)) (drop (nat k) xs))"

subsection \<open>Props and component state\<close>

text \<open>
  The pagination configuration object (\<^verbatim>\<open>this.pagination\<close>). The four numbers are optional;
  the three booleans say whether the caller supplied the callback of that name.
\<close>

record pagination_props =
  pg_current :: "jsnum option"
  pg_pageSize :: "jsnum option"
  pg_defaultCurrent :: "jsnum option"
  pg_defaultPageSize :: "jsnum option"
  pg_onChange :: bool
  pg_onCurrentChange :: bool
  pg_onPageSizeChange :: bool

text \<open>\<^verbatim>\<open>PageInfo\<close>, the payload of the pagination widget's events.\<close>

record pageInfo =
  pi_current :: jsnum
  pi_previous :: jsnum
  pi_pageSize :: jsnum

text \<open>A column: its key, its \<^verbatim>\<open>fixed\<close> field and its child columns.\<close>

datatype baseTableCol =
  BaseTableCol (colKey: string) (fixed: "string option") (children: "baseTableCol list")

text \<open>
  A JavaScript string as \<^verbatim>\<open>parseInt\<close> reads it: the list of its UTF-16 code units.
  \<open>code_units\<close> is the string of a literal written in characters below U+0100, each
  of which is one code unit.
\<close>

type_synonym js_string = "nat list"

definition code_units :: "string \<Rightarrow> js_string" where
  "code_units cs = map of_char cs"

text \<open>The configured height: absent, a number or a string.\<close>

datatype height_prop = HUndefined | HNumber jsnum | HString js_string

text \<open>The measurements of a DOM element that the component reads.\<close>

record element =
  scrollLeft :: int
  scrollWidth :: int
  clientWidth :: int
  offsetWidth :: int

text \<open>
  A function object. A method of the instance is one object for the life of the instance;
  a closure made by a call (an arrow function, the wrapper that \<^verbatim>\<open>debounce\<close> returns)
  is a new object, told apart by the number it was allocated under.
\<close>

datatype fn = Method string | Arrow nat fn | Debounced nat fn

text \<open>What the component does to the outside, in order: the events it emits to its host
  and the callbacks of the pagination configuration it calls.\<close>

datatype 'a effect =
    Emit string pageInfo "'a list"
  | CallOnChange pageInfo
  | CallOnCurrentChange jsnum pageInfo
  | CallOnPageSizeChange jsnum pageInfo

datatype js_error = TypeError

record 'a table =
  pagination :: "pagination_props option"
  data :: "'a list"
  columns :: "baseTableCol list"
  height :: height_prop
  loading :: bool
  scrollableToLeft :: bool
  scrollableToRight :: bool
  scrollBarWidth :: int
  defaultCurrent :: jsnum
  defaultPageSize :: jsnum
  refs :: "string \<rightharpoonup> element"
  effects :: "'a effect list"
  window_listeners :: "(string \<times> fn) list"
  timers :: "(fn \<times> nat) list"
  allocated :: nat

subsection \<open>Pagination state reconciler\<close>

text \<open>\<^verbatim>\<open>this.pagination?.f\<close>: \<^verbatim>\<open>undefined\<close> when there is no pagination object.\<close>

definition opt_chain :: "pagination_props option \<Rightarrow> (pagination_props \<Rightarrow> jsnum option) \<Rightarrow> jsnum option" where
  "opt_chain p f = (case p of None \<Rightarrow> None | Some q \<Rightarrow> f q)"

definition current :: "'a table \<Rightarrow> jsnum option" where
  "current t =
     js_or (js_or (opt_chain (pagination t) pg_current) (Some (defaultCurrent t)))
           (opt_chain (pagination t) pg_defaultCurrent)"

definition pageSize :: "'a table \<Rightarrow> jsnum option" where
  "pageSize t =
     js_or (js_or (opt_chain (pagination t) pg_pageSize) (Some (defaultPageSize t)))
           (opt_chain (pagination t) pg_defaultPageSize)"

subsection \<open>Row slicer\<close>

definition hasPagination :: "'a table \<Rightarrow> bool" where
  "hasPagination t = (pagination t \<noteq> None)"

definition dataSource :: "'a table \<Rightarrow> 'a list" where
  "dataSource t =
     (if \<not> hasPagination t then js_slice (data t) (Num 0) None
      else if js_gt (Num (int (length (data t)))) (toNumber (pageSize t))
        then js_slice (data t)
               (js_mul (js_sub (toNumber (current t)) (Num 1)) (toNumber (pageSize t)))
               (Some (js_mul (toNumber (current t)) (toNumber (pageSize t))))
      else data t)"

subsection \<open>Columns\<close>

text \<open>
  Modelled from the spec: \<^verbatim>\<open>flatColumns\<close> of \<^verbatim>\<open>table/util/props-util\<close> is not among the
  sources. The column flattener descends into every column that has child columns and
  emits the leaf columns only, in left-to-right order; it sets no \<^verbatim>\<open>fixed\<close> field
  that the tree does not have.
\<close>

fun flatColumn :: "baseTableCol \<Rightarrow> baseTableCol list" where
  "flatColumn (BaseTableCol k f cs) =
     (if cs = [] then [BaseTableCol k f cs] else concat (map flatColumn cs))"

definition flatColumns :: "baseTableCol list \<Rightarrow> baseTableCol list" where
  "flatColumns cols = concat (map flatColumn cols)"

definition flattedColumns :: "'a table \<Rightarrow> baseTableCol list" where
  "flattedColumns t = flatColumns (columns t)"

text \<open>\<^verbatim>\<open>item.fixed === 'right' || item.fixed === 'left'\<close>\<close>

definition is_fixed :: "baseTableCol \<Rightarrow> bool" where
  "is_fixed item = (fixed item = Some ''right'' \<or> fixed item = Some ''left'')"

definition hasFixedColumns :: "'a table \<Rightarrow> bool" where
  "hasFixedColumns t = list_ex is_fixed (columns t)"

subsection \<open>Empty state and loading\<close>

text \<open>An array is an object, and every object is truthy.\<close>

definition truthy_array :: "'a list \<Rightarrow> bool" where
  "truthy_array xs = True"

definition isEmpty :: "'a table \<Rightarrow> bool" where
  "isEmpty t =
     ((\<not> truthy_array (dataSource t) \<or> length (dataSource t) = 0) \<and> \<not> loading t)"

definition isLoading :: "'a table \<Rightarrow> bool" where
  "isLoading t = (\<not> \<not> loading t)"

subsection \<open>Layout mode\<close>

text \<open>
  The value of \<^verbatim>\<open>tableHeight\<close>. The numbers of the props are those of \<open>jsnum\<close>;
  \<^verbatim>\<open>parseInt\<close> can also return an infinity, for a string of digits above the largest
  double.
\<close>

datatype js_number = Fin jsnum | PosInfinity | NegInfinity

text \<open>\<^verbatim>\<open>x > y\<close> for such a value on the left.\<close>

fun number_gt :: "js_number \<Rightarrow> jsnum \<Rightarrow> bool" where
  "number_gt (Fin a) b = js_gt a b"
| "number_gt PosInfinity (Num b) = True"
| "number_gt PosInfinity NaN = False"
| "number_gt NegInfinity b = False"

text \<open>
  The white space that \<^verbatim>\<open>parseInt\<close> trims from the start of the string: the code points
  of \<^verbatim>\<open>WhiteSpace\<close> (tab, vertical tab, form feed, U+FEFF and the space separators) and
  of \<^verbatim>\<open>LineTerminator\<close> (line feed, carriage return, U+2028, U+2029).
\<close>

definition is_space :: "nat \<Rightarrow> bool" where
  "is_space c =
     (c \<in> set [0x0009, 0x000B, 0x000C, 0xFEFF,
                0x0020, 0x00A0, 0x1680, 0x2000, 0x2001, 0x2002, 0x2003, 0x2004, 0x2005,
                0x2006, 0x2007, 0x2008, 0x2009, 0x200A, 0x202F, 0x205F, 0x3000,
                0x000A, 0x000D, 0x2028, 0x2029])"

text \<open>The decimal digits \<^verbatim>\<open>0\<close> to \<^verbatim>\<open>9\<close>, the signs \<^verbatim>\<open>+\<close> and \<^verbatim>\<open>-\<close>.\<close>

definition is_digit :: "nat \<Rightarrow> bool" where
  "is_digit c = (0x30 \<le> c \<and> c \<le> 0x39)"

definition digit_value :: "nat \<Rightarrow> nat" where
  "digit_value c = c - 0x30"

definition digits_value :: "js_string \<Rightarrow> nat" where
  "digits_value ds = foldl (\<lambda>acc c. 10 * acc + digit_value c) 0 ds"

definition plus_sign :: nat where
  "plus_sign = 0x2B"

definition minus_sign :: nat where
  "minus_sign = 0x2D"

text \<open>
  The Number value of a natural number: the number itself below \<^verbatim>\<open>2^53\<close>, otherwise the
  nearest double, which keeps the 53 leading bits, rounded to even on a tie; \<open>None\<close> is
  the overflow to an infinity, from \<^verbatim>\<open>2^1024\<close> on after rounding.
\<close>

fun bit_length :: "nat \<Rightarrow> nat" where
  "bit_length n = (if n = 0 then 0 else Suc (bit_length (n div 2)))"

declare bit_length.simps [simp del]

definition to_double :: "nat \<Rightarrow> nat option" where
  "to_double m =
     (if m < 2 ^ 53 then Some m
      else
        let e = bit_length m - 53;
            q = m div 2 ^ e;
            r = m mod 2 ^ e;
            half = 2 ^ (e - 1);
            q' = (if half < r \<or> (r = half \<and> odd q) then q + 1 else q)
        in if 2 ^ 1024 \<le> q' * 2 ^ e then None else Some (q' * 2 ^ e))"

text \<open>
  \<^verbatim>\<open>parseInt(s, 10)\<close>. The leading white space is trimmed; a \<^verbatim>\<open>-\<close> in front makes the
  result negative, and a sign in front is skipped; the longest run of decimal digits
  that follows is read, whatever comes after it. With no digit there the result is
  \<^verbatim>\<open>NaN\<close>, otherwise the Number value of the run, with the sign. (ECMAScript lets an
  implementation read the digits after the twentieth significant one as zeros; the
  value is the correctly rounded one here, as the engines compute it.)
\<close>

definition trim_start :: "js_string \<Rightarrow> js_string" where
  "trim_start s = dropWhile is_space s"

definition is_negative :: "js_string \<Rightarrow> bool" where
  "is_negative s = (trim_start s \<noteq> [] \<and> hd (trim_start s) = minus_sign)"

definition skip_sign :: "js_string \<Rightarrow> js_string" where
  "skip_sign S = (if S \<noteq> [] \<and> (hd S = plus_sign \<or> hd S = minus_sign) then tl S else S)"

definition leading_digits :: "js_string \<Rightarrow> js_string" where
  "leading_digits s = takeWhile is_digit (skip_sign (trim_start s))"

definition parseInt :: "js_string \<Rightarrow> js_number" where
  "parseInt s =
     (let Z = leading_digits s
      in if Z = [] then Fin NaN
         else case to_double (digits_value Z) of
                None \<Rightarrow> (if is_negative s then NegInfinity else PosInfinity)
              | Some m \<Rightarrow> Fin (Num ((if is_negative s then - 1 else 1) * int m)))"

definition tableHeight :: "'a table \<Rightarrow> js_number" where
  "tableHeight t =
     (case height t of
        HString s \<Rightarrow> parseInt s
      | HNumber n \<Rightarrow> Fin (toNumber (js_or (Some n) (Some (Num 0))))
      | HUndefined \<Rightarrow> Fin (toNumber (js_or None (Some (Num 0)))))"

definition fixedHeader :: "'a table \<Rightarrow> bool" where
  "fixedHeader t = number_gt (tableHeight t) (Num 0)"

text \<open>
  The two layouts of \<^verbatim>\<open>render\<close>: with a fixed header the table is the header and body
  pair of \<^verbatim>\<open>renderTableWithFixedHeader\<close>, otherwise one table in one scroll container.
\<close>

datatype layout_mode = SINGLE_BLOCK | FIXED_HEADER_SPLIT

definition layout :: "'a table \<Rightarrow> layout_mode" where
  "layout t = (if fixedHeader t then FIXED_HEADER_SPLIT else SINGLE_BLOCK)"

subsection \<open>Scroll affordance\<close>

text \<open>
  \<^verbatim>\<open>checkScrollableToLeftOrRight\<close> reads the ref \<^verbatim>\<open>scrollBody\<close> or \<^verbatim>\<open>tableContent\<close> and
  takes three properties out of it; taking a property out of \<^verbatim>\<open>undefined\<close> throws a
  \<^verbatim>\<open>TypeError\<close>, before either flag is written.
\<close>

definition scrollContainer :: "'a table \<Rightarrow> element option" where
  "scrollContainer t = refs t (if fixedHeader t then ''scrollBody'' else ''tableContent'')"

definition checkScrollableToLeftOrRight :: "'a table \<Rightarrow> js_error + 'a table" where
  "checkScrollableToLeftOrRight t =
     (case scrollContainer t of
        None \<Rightarrow> Inl TypeError
      | Some el \<Rightarrow>
          Inr (t\<lparr>scrollableToLeft := scrollLeft el > 0,
                 scrollableToRight := scrollLeft el + clientWidth el < scrollWidth el\<rparr>))"

subsection \<open>Pagination widget events\<close>

text \<open>
  Modelled from the spec: \<^verbatim>\<open>emitEvent\<close> of \<^verbatim>\<open>utils/event\<close> is not among the sources. It
  hands the host the notification \<^verbatim>\<open>page-change(pageInfo, currentDatasetSlice)\<close>; here
  the notification is appended to the effects of the component.
\<close>

definition emitEvent :: "'a table \<Rightarrow> string \<Rightarrow> pageInfo \<Rightarrow> 'a list \<Rightarrow> 'a table" where
  "emitEvent t name info rows = t\<lparr>effects := effects t @ [Emit name info rows]\<rparr>"

text \<open>
  The three handlers that \<^verbatim>\<open>renderPagination\<close> gives the pagination widget. They close
  over \<^verbatim>\<open>paginationProps\<close>, the pagination object of the render that made them, and read
  \<^verbatim>\<open>this.dataSource\<close> when the event arrives.
\<close>

definition onChange :: "pagination_props \<Rightarrow> 'a table \<Rightarrow> pageInfo \<Rightarrow> 'a table" where
  "onChange paginationProps t info =
     (if pg_onChange paginationProps then t\<lparr>effects := effects t @ [CallOnChange info]\<rparr>
      else t)"

definition onCurrentChange :: "pagination_props \<Rightarrow> 'a table \<Rightarrow> jsnum \<Rightarrow> pageInfo \<Rightarrow> 'a table" where
  "onCurrentChange paginationProps t cur info =
     (let t1 = emitEvent t ''page-change'' info (dataSource t);
          t2 = t1\<lparr>defaultCurrent := cur\<rparr>
      in if pg_onCurrentChange paginationProps
         then t2\<lparr>effects := effects t2 @ [CallOnCurrentChange cur info]\<rparr>
         else t2)"

definition onPageSizeChange :: "pagination_props \<Rightarrow> 'a table \<Rightarrow> jsnum \<Rightarrow> pageInfo \<Rightarrow> 'a table" where
  "onPageSizeChange paginationProps t newSize info =
     (let t1 = emitEvent t ''page-change'' info (dataSource t);
          t2 = t1\<lparr>defaultPageSize := newSize\<rparr>
      in if pg_onPageSizeChange paginationProps
         then t2\<lparr>effects := effects t2 @ [CallOnPageSizeChange newSize info]\<rparr>
         else t2)"

subsection \<open>Mount and unmount\<close>

text \<open>
  Modelled from the spec: \<^verbatim>\<open>debounce\<close> of \<^verbatim>\<open>table/util/common\<close> is not among the sources.
  It wraps a function into a debounced one; the wrapper is a closure made by the call, so
  every call of \<^verbatim>\<open>debounce\<close> returns a new function object.
\<close>

definition debounce :: "'a table \<Rightarrow> fn \<Rightarrow> fn \<times> 'a table" where
  "debounce t f = (Debounced (allocated t) f, t\<lparr>allocated := Suc (allocated t)\<rparr>)"

text \<open>
  \<^verbatim>\<open>window.addEventListener\<close> drops a listener that is already registered for the event;
  \<^verbatim>\<open>window.removeEventListener\<close> removes the listener that is the same object and does
  nothing when there is none.
\<close>

definition addEventListener :: "'a table \<Rightarrow> string \<Rightarrow> fn \<Rightarrow> 'a table" where
  "addEventListener t ty f =
     (if (ty, f) \<in> set (window_listeners t) then t
      else t\<lparr>window_listeners := window_listeners t @ [(ty, f)]\<rparr>)"

definition removeEventListener :: "'a table \<Rightarrow> string \<Rightarrow> fn \<Rightarrow> 'a table" where
  "removeEventListener t ty f = t\<lparr>window_listeners := removeAll (ty, f) (window_listeners t)\<rparr>"

text \<open>
  \<^verbatim>\<open>setTimeout(() => { f() }, delay)\<close>: the arrow function is a closure of its own, queued
  with its delay.
\<close>

definition setTimeout :: "'a table \<Rightarrow> fn \<Rightarrow> nat \<Rightarrow> 'a table" where
  "setTimeout t f delay =
     t\<lparr>timers := timers t @ [(Arrow (allocated t) f, delay)], allocated := Suc (allocated t)\<rparr>"

definition addWindowResizeEventListener :: "'a table \<Rightarrow> 'a table" where
  "addWindowResizeEventListener t =
     (let (listener, t1) = debounce t (Method ''checkScrollableToLeftOrRight'')
      in addEventListener t1 ''resize'' listener)"

text \<open>\<^verbatim>\<open>mounted\<close>; \<open>scrollDiv\<close> is the probe element as the platform lays it out.\<close>

definition mounted :: "element \<Rightarrow> 'a table \<Rightarrow> 'a table" where
  "mounted scrollDiv t =
     (let t1 = (if hasFixedColumns t
                then addWindowResizeEventListener
                       (setTimeout t (Method ''checkScrollableToLeftOrRight'') 0)
                else t)
      in t1\<lparr>scrollBarWidth := offsetWidth scrollDiv - clientWidth scrollDiv\<rparr>)"

definition unmounted :: "'a table \<Rightarrow> 'a table" where
  "unmounted t =
     (let (listener, t1) = debounce t (Method ''checkScrollableToLeftOrRight'')
      in removeEventListener t1 ''resize'' listener)"

text \<open>The instance as \<^verbatim>\<open>data()\<close> makes it from its props, in a window with no listeners.\<close>

definition new_table ::
  "pagination_props option \<Rightarrow> 'a list \<Rightarrow> baseTableCol list \<Rightarrow> height_prop \<Rightarrow> bool \<Rightarrow> 'a table" where
  "new_table pg rows cols h l =
     \<lparr>pagination = pg, data = rows, columns = cols, height = h, loading = l,
      scrollableToLeft = False, scrollableToRight = False, scrollBarWidth = 0,
      defaultCurrent = Num 0, defaultPageSize = Num 0,
      refs = Map.empty, effects = [], window_listeners = [], timers = [], allocated = 0\<rparr>"

text \<open>A pagination object with none of its fields set.\<close>

definition no_props :: pagination_props where
  "no_props =
     \<lparr>pg_current = None, pg_pageSize = None, pg_defaultCurrent = None,
      pg_defaultPageSize = None, pg_onChange = False, pg_onCurrentChange = False,
      pg_onPageSizeChange = False\<rparr>"

subsection \<open>The half-open window of the specification\<close>

text \<open>
  \<open>D[a : b]\<close>, as the specification writes the page: the rows of \<open>D\<close> at the positions \<open>i\<close>
  with \<open>a \<le> i < b\<close> that \<open>D\<close> has, in order.
\<close>

definition half_open_window :: "'a list \<Rightarrow> nat \<Rightarrow> nat \<Rightarrow> 'a list" where
  "half_open_window D a b = map (\<lambda>i. D ! i) (filter (\<lambda>i. i < length D) [a..<b])"

subsection \<open>Example tables\<close>

text \<open>
  The instances that the theorems below are evaluated on: five rows, with a controlled
  pagination, an uncontrolled one that the widget has moved to page 5, uncontrolled
  defaults of 0, a page size with no current page, and the second page of two rows.
\<close>

definition rows5 :: "int list" where "rows5 = [1, 2, 3, 4, 5]"

definition controlled_table :: "int table" where
  "controlled_table =
     (new_table (Some (no_props\<lparr>pg_current := Some (Num 3), pg_pageSize := Some (Num 2)\<rparr>))
        rows5 [] HUndefined False)\<lparr>defaultCurrent := Num 5, defaultPageSize := Num 4\<rparr>"

definition uncontrolled_table :: "int table" where
  "uncontrolled_table =
     (new_table (Some (no_props\<lparr>pg_defaultCurrent := Some (Num 1), pg_defaultPageSize := Some (Num 2)\<rparr>))
        rows5 [] HUndefined False)\<lparr>defaultCurrent := Num 5\<rparr>"

definition zero_default_table :: "int table" where
  "zero_default_table =
     new_table (Some (no_props\<lparr>pg_defaultCurrent := Some (Num 0), pg_defaultPageSize := Some (Num 0)\<rparr>))
        rows5 [] HUndefined False"

definition no_current_table :: "int table" where
  "no_current_table =
     new_table (Some (no_props\<lparr>pg_pageSize := Some (Num 2)\<rparr>)) rows5 [] HUndefined False"

definition page_two_table :: "int table" where
  "page_two_table =
     new_table (Some (no_props\<lparr>pg_current := Some (Num 2), pg_pageSize := Some (Num 2)\<rparr>))
        rows5 [] HUndefined False"

text \<open>
  After the first render of an uncontrolled pagination on page 1, and the payload of the
  widget's event for page 2.
\<close>

definition first_page_table :: "int table" where
  "first_page_table =
     new_table (Some (no_props\<lparr>pg_defaultCurrent := Some (Num 1), pg_defaultPageSize := Some (Num 2)\<rparr>))
        rows5 [] HUndefined False"

definition page_info :: pageInfo where
  "page_info = \<lparr>pi_current = Num 2, pi_previous = Num 1, pi_pageSize = Num 2\<rparr>"

text \<open>
  A column group with a fixed child, and the flat columns A (left), B, C (right).
\<close>

definition nested_fixed_table :: "int table" where
  "nested_fixed_table =
     new_table None rows5
       [BaseTableCol ''group'' None [BaseTableCol ''a'' (Some ''left'') []]] HUndefined False"

definition flat_fixed_table :: "int table" where
  "flat_fixed_table =
     new_table None rows5
       [BaseTableCol ''A'' (Some ''left'') [], BaseTableCol ''B'' None [],
        BaseTableCol ''C'' (Some ''right'') []] HUndefined False"

text \<open>
  A table of a given height; the probe element of \<^verbatim>\<open>mounted\<close>; a scroll container of
  client width 100 over a content of width 300, scrolled to \<open>x\<close>, and the table rendered
  into it.
\<close>

definition height_table :: "height_prop \<Rightarrow> int table" where
  "height_table h = new_table None rows5 [] h False"

definition probe :: element where
  "probe = \<lparr>scrollLeft = 0, scrollWidth = 99, clientWidth = 84, offsetWidth = 99\<rparr>"

definition wide_content :: "int \<Rightarrow> element" where
  "wide_content x = \<lparr>scrollLeft = x, scrollWidth = 300, clientWidth = 100, offsetWidth = 100\<rparr>"

definition rendered_table :: "int \<Rightarrow> int table" where
  "rendered_table x = flat_fixed_table\<lparr>refs := [''tableContent'' \<mapsto> wide_content x]\<rparr>"

section \<open>Properties\<close>

subsection \<open>Pagination state reconciler\<close>

lemma js_or_cases:
  "js_or (js_or c (Some d)) u =
     (if truthy c then c else if truthy_num d then Some d else u)"
  by (simp add: js_or_def)

lemma truthy_not_zero: "truthy v \<Longrightarrow> v \<noteq> Some (Num 0)"
  by auto

text \<open>
  Claim C2. The reconciled current page is the controlled current when that is set to a
  usable (truthy) value, in particular to any page number \<open>p \<ge> 1\<close>; otherwise the internally
  tracked default when that is usable; otherwise the uncontrolled default of the caller.
  The page size follows the same chain.
\<close>

theorem reconciled_priority:
  "(truthy (opt_chain (pagination t) pg_current) \<longrightarrow>
      current t = opt_chain (pagination t) pg_current) \<and>
   (\<not> truthy (opt_chain (pagination t) pg_current) \<and> truthy_num (defaultCurrent t) \<longrightarrow>
      current t = Some (defaultCurrent t)) \<and>
   (\<not> truthy (opt_chain (pagination t) pg_current) \<and> \<not> truthy_num (defaultCurrent t) \<longrightarrow>
      current t = opt_chain (pagination t) pg_defaultCurrent) \<and>
   (\<forall>p. opt_chain (pagination t) pg_current = Some (Num p) \<and> 1 \<le> p \<longrightarrow>
      current t = Some (Num p)) \<and>
   (\<forall>s. opt_chain (pagination t) pg_pageSize = Some (Num s) \<and> 1 \<le> s \<longrightarrow>
      pageSize t = Some (Num s)) \<and>
   (truthy (opt_chain (pagination t) pg_pageSize) \<longrightarrow>
      pageSize t = opt_chain (pagination t) pg_pageSize) \<and>
   (\<not> truthy (opt_chain (pagination t) pg_pageSize) \<and> truthy_num (defaultPageSize t) \<longrightarrow>
      pageSize t = Some (defaultPageSize t)) \<and>
   (\<not> truthy (opt_chain (pagination t) pg_pageSize) \<and> \<not> truthy_num (defaultPageSize t) \<longrightarrow>
      pageSize t = opt_chain (pagination t) pg_defaultPageSize)"
  by (simp add: current_def pageSize_def js_or_cases)

text \<open>
  Controlled current 3 with internal default 5 reconciles to 3; no controlled current,
  internal default 5 and uncontrolled default 1 reconcile to 5.
\<close>

theorem reconciled_priority_witness:
  "current controlled_table = Some (Num 3) \<and> pageSize controlled_table = Some (Num 2) \<and>
   current uncontrolled_table = Some (Num 5) \<and> pageSize uncontrolled_table = Some (Num 2)"
  using reconciled_priority [of controlled_table] reconciled_priority [of uncontrolled_table]
  by (simp add: controlled_table_def uncontrolled_table_def new_table_def no_props_def opt_chain_def)

text \<open>
  Claim C5, as stated, fails: with an uncontrolled default of 0 and nothing else set, all
  three sources are falsy and the reconciled current page and page size are the number 0.
\<close>

theorem reconciled_zero_counterexample:
  "\<not> truthy (opt_chain (pagination zero_default_table) pg_current) \<and>
   \<not> truthy (Some (defaultCurrent zero_default_table)) \<and>
   \<not> truthy (opt_chain (pagination zero_default_table) pg_defaultCurrent) \<and>
   current zero_default_table = Some (Num 0) \<and>
   pageSize zero_default_table = Some (Num 0)"
  by (simp add: zero_default_table_def new_table_def no_props_def opt_chain_def
        current_def pageSize_def js_or_def)

text \<open>
  Claim C5, amended. The reconciliation takes no 0 from the controlled value or from the
  internal default: the reconciled current page (page size) is 0 exactly when those two
  are absent or falsy and the uncontrolled default is itself 0; when they are absent or
  falsy and the uncontrolled default is absent, the result is \<^verbatim>\<open>undefined\<close>.
\<close>

theorem reconciled_zero_only_from_default:
  "(current t = Some (Num 0) \<longleftrightarrow>
      \<not> truthy (opt_chain (pagination t) pg_current) \<and> \<not> truthy_num (defaultCurrent t) \<and>
      opt_chain (pagination t) pg_defaultCurrent = Some (Num 0)) \<and>
   (pageSize t = Some (Num 0) \<longleftrightarrow>
      \<not> truthy (opt_chain (pagination t) pg_pageSize) \<and> \<not> truthy_num (defaultPageSize t) \<and>
      opt_chain (pagination t) pg_defaultPageSize = Some (Num 0)) \<and>
   (\<not> truthy (opt_chain (pagination t) pg_current) \<and> \<not> truthy_num (defaultCurrent t) \<and>
      opt_chain (pagination t) pg_defaultCurrent = None \<longrightarrow> current t = None) \<and>
   (\<not> truthy (opt_chain (pagination t) pg_pageSize) \<and> \<not> truthy_num (defaultPageSize t) \<and>
      opt_chain (pagination t) pg_defaultPageSize = None \<longrightarrow> pageSize t = None)"
  by (auto simp: current_def pageSize_def js_or_cases dest: truthy_not_zero)

theorem reconciled_zero_only_from_default_witness:
  "current no_current_table = None \<and> pageSize no_current_table \<noteq> Some (Num 0) \<and>
   current zero_default_table = Some (Num 0)"
  using reconciled_zero_only_from_default [of no_current_table]
        reconciled_zero_only_from_default [of zero_default_table]
  by (simp add: no_current_table_def zero_default_table_def new_table_def no_props_def opt_chain_def)

subsection \<open>Row slicer\<close>

lemma filter_upt_less: "filter (\<lambda>i. i < n) [a..<b] = [a..<min b n]"
  by (induction b) auto

lemma map_nth_upt_window: "b \<le> length D \<Longrightarrow> map (\<lambda>i. D ! i) [a..<b] = take (b - a) (drop a D)"
  by (rule nth_equalityI) (auto simp: nth_map_upt)

lemma half_open_window_take_drop: "half_open_window D a b = take (b - a) (drop a D)"
proof -
  have "half_open_window D a b = map (\<lambda>i. D ! i) [a..<min b (length D)]"
    by (simp add: half_open_window_def filter_upt_less)
  also have "\<dots> = take (min b (length D) - a) (drop a D)"
    by (rule map_nth_upt_window) simp
  also have "\<dots> = take (b - a) (drop a D)"
    by (cases "b \<le> length D") (simp_all add: min_def)
  finally show ?thesis .
qed

lemma js_slice_nonneg:
  assumes "0 \<le> a" "a \<le> b"
  shows "js_slice xs (Num a) (Some (Num b)) = take (nat b - nat a) (drop (nat a) xs)"
proof (cases "a \<le> int (length xs)")
  case True
  with assms show ?thesis
    by (cases "b \<le> int (length xs)")
       (auto simp: js_slice_def relative_index_def Let_def min_def max_def nat_diff_distrib)
next
  case False
  with assms show ?thesis
    by (auto simp: js_slice_def relative_index_def Let_def min_def max_def)
qed

lemma dataSource_no_pagination: "pagination t = None \<Longrightarrow> dataSource t = data t"
  by (simp add: dataSource_def hasPagination_def js_slice_def relative_index_def)

lemma page_two_table_simps:
  "pagination page_two_table \<noteq> None" "current page_two_table = Some (Num 2)"
  "pageSize page_two_table = Some (Num 2)" "data page_two_table = [1, 2, 3, 4, 5]"
  by (simp_all add: page_two_table_def new_table_def no_props_def opt_chain_def
        current_def pageSize_def js_or_def rows5_def)

text \<open>
  Claim C1. With pagination on, page \<open>p \<ge> 1\<close>, size \<open>s \<ge> 1\<close> and more than \<open>s\<close> rows, the row
  slicer returns the half-open window \<open>D[(p-1)*s : p*s]\<close>; its length is
  \<open>min s (length D - (p-1)*s)\<close>, clamped to 0 from below; a page past the end of the rows is
  the empty list.
\<close>

theorem dataSource_page_window:
  assumes "pagination t \<noteq> None" "current t = Some (Num p)" "pageSize t = Some (Num s)"
      and "1 \<le> p" "1 \<le> s" "s < int (length (data t))"
  shows "dataSource t = half_open_window (data t) (nat ((p - 1) * s)) (nat (p * s)) \<and>
         int (length (dataSource t)) = max 0 (min s (int (length (data t)) - (p - 1) * s)) \<and>
         (int (length (data t)) \<le> (p - 1) * s \<longrightarrow> dataSource t = [])"
proof -
  have a: "0 \<le> (p - 1) * s" using assms by simp
  have b: "(p - 1) * s \<le> p * s" using assms by (simp add: mult_right_mono)
  have d: "nat (p * s) - nat ((p - 1) * s) = nat s"
    using assms a by (simp add: nat_diff_distrib[symmetric] algebra_simps)
  have ds: "dataSource t = take (nat s) (drop (nat ((p - 1) * s)) (data t))"
    using assms js_slice_nonneg[OF a b, of "data t"] d
    by (simp add: dataSource_def hasPagination_def)
  show ?thesis
    using a assms unfolding ds half_open_window_take_drop d
    by (auto simp: min_def max_def)
qed

text \<open>
  Page 2 of size 2 over five rows is the third and fourth row.
\<close>

theorem dataSource_page_window_witness:
  "current page_two_table = Some (Num 2) \<and> pageSize page_two_table = Some (Num 2) \<and>
   data page_two_table = [1, 2, 3, 4, 5] \<and> dataSource page_two_table = [3, 4]"
proof -
  have "dataSource page_two_table = half_open_window (data page_two_table) (nat ((2 - 1) * 2)) (nat (2 * 2))"
    by (rule dataSource_page_window [of page_two_table 2 2, THEN conjunct1])
       (simp_all add: page_two_table_simps)
  then have "dataSource page_two_table = [3, 4]"
    by (simp add: page_two_table_simps half_open_window_def upt_rec)
  then show ?thesis by (simp add: page_two_table_simps)
qed

text \<open>
  Claim C10. With a pagination object, a page size \<open>s\<close> below the number of rows, and no
  current page from any source (no usable controlled current, internal default still 0,
  no uncontrolled default), the reconciled current page is \<^verbatim>\<open>undefined\<close> and the row slice
  is the empty list, which is not the full dataset.
\<close>

theorem dataSource_no_current:
  assumes "pagination t \<noteq> None"
      and "\<not> truthy (opt_chain (pagination t) pg_current)"
      and "\<not> truthy_num (defaultCurrent t)"
      and "opt_chain (pagination t) pg_defaultCurrent = None"
      and "pageSize t = Some (Num s)"
      and "s < int (length (data t))"
  shows "current t = None \<and> dataSource t = [] \<and> (0 \<le> s \<longrightarrow> dataSource t \<noteq> data t)"
proof -
  have c: "current t = None"
    using assms(2-4) by (simp add: current_def js_or_cases)
  have "dataSource t = js_slice (data t) NaN (Some NaN)"
    using assms(1,5,6) c by (simp add: dataSource_def hasPagination_def)
  then have d: "dataSource t = []"
    by (simp add: js_slice_def relative_index_def)
  from assms(6) have "0 \<le> s \<longrightarrow> data t \<noteq> []" by auto
  with c d show ?thesis by auto
qed

theorem dataSource_no_current_witness:
  "current no_current_table = None \<and> pageSize no_current_table = Some (Num 2) \<and>
   data no_current_table = [1, 2, 3, 4, 5] \<and> dataSource no_current_table = []"
proof -
  have "dataSource no_current_table = []"
    by (rule dataSource_no_current [of no_current_table 2, THEN conjunct2, THEN conjunct1])
       (simp_all add: no_current_table_def new_table_def no_props_def opt_chain_def
          pageSize_def js_or_def rows5_def)
  then show ?thesis
    by (simp add: no_current_table_def new_table_def no_props_def opt_chain_def
          pageSize_def current_def js_or_def rows5_def)
qed

subsection \<open>Columns\<close>

lemma flatColumns_flat: "\<forall>c \<in> set cols. children c = [] \<Longrightarrow> flatColumns cols = cols"
proof (induction cols)
  case Nil
  then show ?case by (simp add: flatColumns_def)
next
  case (Cons c cols)
  then show ?case by (cases c) (simp add: flatColumns_def)
qed

text \<open>
  Claim C3, as stated, fails: a column group that is not fixed itself and has a child
  fixed to the left has a fixed leaf, and \<^verbatim>\<open>hasFixedColumns\<close> is false.
\<close>

theorem hasFixedColumns_nested_counterexample:
  "list_ex is_fixed (flattedColumns nested_fixed_table) \<and> \<not> hasFixedColumns nested_fixed_table"
  by (simp add: nested_fixed_table_def new_table_def flattedColumns_def flatColumns_def
        hasFixedColumns_def is_fixed_def)

text \<open>
  Claim C3, amended. \<^verbatim>\<open>hasFixedColumns\<close> is true if and only if a top-level column has
  \<^verbatim>\<open>fixed === 'left'\<close> or \<^verbatim>\<open>fixed === 'right'\<close>; child columns are not looked at. When no
  column has children, the flattened list is the column list, and \<^verbatim>\<open>hasFixedColumns\<close> is
  true if and only if a flattened leaf is fixed.
\<close>

theorem hasFixedColumns_top_level:
  "(hasFixedColumns t \<longleftrightarrow>
      (\<exists>c \<in> set (columns t). fixed c = Some ''left'' \<or> fixed c = Some ''right'')) \<and>
   ((\<forall>c \<in> set (columns t). children c = []) \<longrightarrow>
      flattedColumns t = columns t \<and>
      (hasFixedColumns t \<longleftrightarrow>
         (\<exists>c \<in> set (flattedColumns t). fixed c = Some ''left'' \<or> fixed c = Some ''right'')))"
  by (auto simp: hasFixedColumns_def flattedColumns_def flatColumns_flat list_ex_iff is_fixed_def)

text \<open>
  The flat columns A (left), B, C (right) flatten to A, B, C and have a fixed column;
  B alone has none.
\<close>

theorem hasFixedColumns_top_level_witness:
  "map colKey (flattedColumns flat_fixed_table) = [''A'', ''B'', ''C''] \<and>
   hasFixedColumns flat_fixed_table \<and>
   \<not> hasFixedColumns (flat_fixed_table\<lparr>columns := [BaseTableCol ''B'' None []]\<rparr>)"
  using hasFixedColumns_top_level [of flat_fixed_table]
        hasFixedColumns_top_level [of "flat_fixed_table\<lparr>columns := [BaseTableCol ''B'' None []]\<rparr>"]
  by (simp add: flat_fixed_table_def new_table_def)

subsection \<open>Layout mode\<close>

lemma bit_length_lower: "0 < m \<Longrightarrow> 2 ^ (bit_length m - 1) \<le> m"
proof (induction m rule: bit_length.induct)
  case (1 n)
  show ?case
  proof (cases "n div 2 = 0")
    case True
    with "1.prems" show ?thesis
      by (simp add: bit_length.simps [of n] bit_length.simps [of 0])
  next
    case False
    with "1.prems" "1.IH" have ih: "2 ^ (bit_length (n div 2) - 1) \<le> n div 2"
      by simp
    from False have pos: "0 < bit_length (n div 2)"
      by (simp add: bit_length.simps [of "n div 2"])
    then have "(2::nat) ^ bit_length (n div 2) = 2 * 2 ^ (bit_length (n div 2) - 1)"
      by (cases "bit_length (n div 2)") simp_all
    also have "\<dots> \<le> 2 * (n div 2)"
      using ih by simp
    also have "\<dots> \<le> n"
      by simp
    finally show ?thesis
      using "1.prems" by (simp add: bit_length.simps [of n])
  qed
qed

lemma to_double_small: "m < 2 ^ 53 \<Longrightarrow> to_double m = Some m"
  by (simp add: to_double_def)

lemma to_double_positive:
  assumes "to_double m = Some r"
  shows "0 < r \<longleftrightarrow> 0 < m"
proof (cases "m < 2 ^ 53")
  case True
  with assms show ?thesis by (simp add: to_double_def)
next
  case False
  define e where "e = bit_length m - 53"
  from False have m: "0 < m" by (cases m) simp_all
  have "(2::nat) ^ e \<le> 2 ^ (bit_length m - 1)"
    unfolding e_def by (rule power_increasing) simp_all
  also have "\<dots> \<le> m"
    using m by (rule bit_length_lower)
  finally have "0 < m div 2 ^ e"
    by (simp add: div_greater_zero_iff)
  then have "0 < r"
    using assms False by (auto simp: to_double_def Let_def e_def split: if_splits)
  with m show ?thesis by simp
qed

lemma to_double_overflow: "to_double m = None \<Longrightarrow> 0 < m"
  by (cases m) (simp_all add: to_double_def)

lemma parseInt_no_digits: "leading_digits s = [] \<Longrightarrow> parseInt s = Fin NaN"
  by (simp add: parseInt_def)

lemma parseInt_positive:
  assumes "leading_digits s \<noteq> []"
  shows "number_gt (parseInt s) (Num 0) \<longleftrightarrow>
           \<not> is_negative s \<and> 0 < digits_value (leading_digits s)"
proof (cases "to_double (digits_value (leading_digits s))")
  case None
  with assms to_double_overflow [OF None] show ?thesis
    by (simp add: parseInt_def)
next
  case (Some r)
  with assms to_double_positive [OF Some] show ?thesis
    by (simp add: parseInt_def)
qed

lemma parseInt_exact:
  assumes "leading_digits s \<noteq> []" "digits_value (leading_digits s) < 2 ^ 53"
  shows "parseInt s =
           Fin (Num ((if is_negative s then - 1 else 1) * int (digits_value (leading_digits s))))"
  using assms by (simp add: parseInt_def to_double_small)

lemma fixedHeader_iff:
  "fixedHeader t \<longleftrightarrow>
     tableHeight t = PosInfinity \<or> (\<exists>n. tableHeight t = Fin (Num n) \<and> 0 < n)"
proof (cases "tableHeight t")
  case (Fin x)
  then show ?thesis by (cases x) (simp_all add: fixedHeader_def)
qed (simp_all add: fixedHeader_def)

lemma code_units_simps:
  "code_units ''abc'' = [0x61, 0x62, 0x63]"
  "code_units ''auto'' = [0x61, 0x75, 0x74, 0x6F]"
  "code_units ''120'' = [0x31, 0x32, 0x30]"
  "code_units ''120px'' = [0x31, 0x32, 0x30, 0x70, 0x78]"
  by (simp_all add: code_units_def)

lemma leading_digits_examples:
  "leading_digits (code_units ''abc'') = []"
  "leading_digits (code_units ''auto'') = []"
  "leading_digits (code_units ''120'') = [0x31, 0x32, 0x30]"
  "leading_digits (code_units ''120px'') = [0x31, 0x32, 0x30]"
  "\<not> is_negative (code_units ''120'')"
  "\<not> is_negative (code_units ''120px'')"
  by (simp_all add: code_units_simps leading_digits_def skip_sign_def trim_start_def
        is_negative_def is_space_def is_digit_def plus_sign_def minus_sign_def)

lemma digits_value_120: "digits_value [0x31, 0x32, 0x30] = 120"
  by (simp add: digits_value_def digit_value_def)

lemma height_height_table: "height (height_table h) = h"
  by (simp add: height_table_def new_table_def)

lemma bit_length_example: "bit_length 9007199254740993 = 54"
  by (simp add: bit_length.simps)

lemma to_double_example: "to_double 9007199254740993 = Some 9007199254740992"
  by (simp add: to_double_def bit_length_example Let_def)

lemma parseInt_rounds_to_double:
  "parseInt (code_units ''9007199254740993'') = Fin (Num 9007199254740992)"
proof -
  have c: "code_units ''9007199254740993'' =
      [0x39, 0x30, 0x30, 0x37, 0x31, 0x39, 0x39, 0x32, 0x35, 0x34, 0x37, 0x34, 0x30, 0x39, 0x39, 0x33]"
    by (simp add: code_units_def)
  have z: "leading_digits (code_units ''9007199254740993'') = code_units ''9007199254740993''"
    by (simp add: c leading_digits_def skip_sign_def trim_start_def is_space_def is_digit_def
          plus_sign_def minus_sign_def)
  have n: "\<not> is_negative (code_units ''9007199254740993'')"
    by (simp add: c is_negative_def trim_start_def is_space_def minus_sign_def)
  have v: "digits_value (code_units ''9007199254740993'') = 9007199254740993"
    by (simp add: c digits_value_def digit_value_def)
  show ?thesis
    unfolding parseInt_def Let_def z v to_double_example using n by (simp add: c)
qed

lemma parseInt_trims_no_break_space:
  "parseInt (0xA0 # code_units ''120'') = Fin (Num 120)"
proof -
  have z: "leading_digits (0xA0 # code_units ''120'') = [0x31, 0x32, 0x30]"
    by (simp add: code_units_def leading_digits_def skip_sign_def trim_start_def is_space_def
          is_digit_def plus_sign_def minus_sign_def)
  have n: "\<not> is_negative (0xA0 # code_units ''120'')"
    by (simp add: code_units_def is_negative_def trim_start_def is_space_def minus_sign_def)
  show ?thesis
    using n by (simp add: parseInt_def z to_double_def digits_value_def digit_value_def)
qed

text \<open>
  Claim C4, as stated, fails: the height \<^verbatim>\<open>"abc"\<close> parses to \<^verbatim>\<open>NaN\<close>, not to 0; and
  the height \<^verbatim>\<open>"120px"\<close>, which is not a numeric string (\<^verbatim>\<open>Number("120px")\<close> is
  \<^verbatim>\<open>NaN\<close>), parses to 120 and selects \<^verbatim>\<open>FIXED_HEADER_SPLIT\<close>.
\<close>

theorem layout_of_height_nonnumeric_counterexample:
  "tableHeight (height_table (HString (code_units ''abc''))) = Fin NaN \<and>
   tableHeight (height_table (HString (code_units ''abc''))) \<noteq> Fin (Num 0) \<and>
   tableHeight (height_table (HString (code_units ''120px''))) = Fin (Num 120) \<and>
   layout (height_table (HString (code_units ''120px''))) = FIXED_HEADER_SPLIT"
  by (simp add: tableHeight_def height_height_table parseInt_def leading_digits_examples
        digits_value_120 to_double_small layout_def fixedHeader_def)

text \<open>
  Claim C4, amended. The layout is a function of the configured height alone:
  \<^verbatim>\<open>FIXED_HEADER_SPLIT\<close> exactly when the table height is above 0, \<^verbatim>\<open>SINGLE_BLOCK\<close>
  otherwise. A number above 0 is its own table height and selects \<^verbatim>\<open>FIXED_HEADER_SPLIT\<close>;
  a number that is not above 0 selects \<^verbatim>\<open>SINGLE_BLOCK\<close>. Of a string, \<^verbatim>\<open>parseInt\<close>
  reads the run of decimal digits that follows the leading white space and one sign,
  whatever comes after the run: when the run is not empty, the layout is
  \<^verbatim>\<open>FIXED_HEADER_SPLIT\<close> exactly when there is no minus sign and the run has a value
  above 0, and below \<^verbatim>\<open>2^53\<close> the table height is that value with its sign. An absent
  height (as the numbers 0 and \<^verbatim>\<open>NaN\<close>) gives the table height 0, a string with no
  such run of digits parses to \<^verbatim>\<open>NaN\<close>, and both select \<^verbatim>\<open>SINGLE_BLOCK\<close>.
\<close>

theorem layout_of_height:
  "(layout t = FIXED_HEADER_SPLIT \<longleftrightarrow>
      tableHeight t = PosInfinity \<or> (\<exists>n. tableHeight t = Fin (Num n) \<and> 0 < n)) \<and>
   (layout t = SINGLE_BLOCK \<longleftrightarrow>
      \<not> (tableHeight t = PosInfinity \<or> (\<exists>n. tableHeight t = Fin (Num n) \<and> 0 < n))) \<and>
   (\<forall>n. height t = HNumber (Num n) \<and> 0 < n \<longrightarrow>
      tableHeight t = Fin (Num n) \<and> layout t = FIXED_HEADER_SPLIT) \<and>
   (\<forall>n. height t = HNumber (Num n) \<and> n \<le> 0 \<longrightarrow> layout t = SINGLE_BLOCK) \<and>
   (\<forall>s. height t = HString s \<and> leading_digits s \<noteq> [] \<longrightarrow>
      (layout t = FIXED_HEADER_SPLIT \<longleftrightarrow>
         \<not> is_negative s \<and> 0 < digits_value (leading_digits s))) \<and>
   (\<forall>s. height t = HString s \<and> leading_digits s \<noteq> [] \<and>
        digits_value (leading_digits s) < 2 ^ 53 \<longrightarrow>
      tableHeight t =
        Fin (Num ((if is_negative s then - 1 else 1) * int (digits_value (leading_digits s))))) \<and>
   (height t = HUndefined \<or> height t = HNumber (Num 0) \<or> height t = HNumber NaN \<longrightarrow>
      tableHeight t = Fin (Num 0) \<and> layout t = SINGLE_BLOCK) \<and>
   (\<forall>s. height t = HString s \<and> leading_digits s = [] \<longrightarrow>
      tableHeight t = Fin NaN \<and> layout t = SINGLE_BLOCK)"
proof -
  have split: "layout t = FIXED_HEADER_SPLIT \<longleftrightarrow>
      tableHeight t = PosInfinity \<or> (\<exists>n. tableHeight t = Fin (Num n) \<and> 0 < n)"
    by (simp add: layout_def fixedHeader_iff)
  have single: "layout t = SINGLE_BLOCK \<longleftrightarrow>
      \<not> (tableHeight t = PosInfinity \<or> (\<exists>n. tableHeight t = Fin (Num n) \<and> 0 < n))"
    by (simp add: layout_def fixedHeader_iff)
  have number: "\<forall>n. height t = HNumber (Num n) \<and> 0 < n \<longrightarrow>
      tableHeight t = Fin (Num n) \<and> layout t = FIXED_HEADER_SPLIT"
    by (simp add: tableHeight_def js_or_def layout_def fixedHeader_def)
  have nonpositive: "\<forall>n. height t = HNumber (Num n) \<and> n \<le> 0 \<longrightarrow> layout t = SINGLE_BLOCK"
    by (simp add: tableHeight_def js_or_def layout_def fixedHeader_def)
  have digits: "\<forall>s. height t = HString s \<and> leading_digits s \<noteq> [] \<longrightarrow>
      (layout t = FIXED_HEADER_SPLIT \<longleftrightarrow>
         \<not> is_negative s \<and> 0 < digits_value (leading_digits s))"
    by (simp add: tableHeight_def layout_def fixedHeader_def parseInt_positive)
  have exact: "\<forall>s. height t = HString s \<and> leading_digits s \<noteq> [] \<and>
        digits_value (leading_digits s) < 2 ^ 53 \<longrightarrow>
      tableHeight t =
        Fin (Num ((if is_negative s then - 1 else 1) * int (digits_value (leading_digits s))))"
    by (simp add: tableHeight_def parseInt_exact)
  have absent: "height t = HUndefined \<or> height t = HNumber (Num 0) \<or> height t = HNumber NaN \<longrightarrow>
      tableHeight t = Fin (Num 0) \<and> layout t = SINGLE_BLOCK"
    by (auto simp: tableHeight_def js_or_def layout_def fixedHeader_def)
  have nonnumeric: "\<forall>s. height t = HString s \<and> leading_digits s = [] \<longrightarrow>
      tableHeight t = Fin NaN \<and> layout t = SINGLE_BLOCK"
    by (simp add: tableHeight_def parseInt_no_digits layout_def fixedHeader_def)
  from split single number nonpositive digits exact absent nonnumeric
  show ?thesis by (intro conjI)
qed

text \<open>
  Height 0 and no height give \<^verbatim>\<open>SINGLE_BLOCK\<close>; \<^verbatim>\<open>"120"\<close> and \<^verbatim>\<open>"120px"\<close> have the table
  height 120 and give \<^verbatim>\<open>FIXED_HEADER_SPLIT\<close>; \<^verbatim>\<open>"auto"\<close> parses to \<^verbatim>\<open>NaN\<close> and gives
  \<^verbatim>\<open>SINGLE_BLOCK\<close>.
\<close>

theorem layout_of_height_witness:
  "layout (height_table (HNumber (Num 0))) = SINGLE_BLOCK \<and>
   layout (height_table (HString (code_units ''120''))) = FIXED_HEADER_SPLIT \<and>
   tableHeight (height_table (HString (code_units ''120''))) = Fin (Num 120) \<and>
   layout (height_table HUndefined) = SINGLE_BLOCK \<and>
   layout (height_table (HString (code_units ''120px''))) = FIXED_HEADER_SPLIT \<and>
   tableHeight (height_table (HString (code_units ''auto''))) = Fin NaN \<and>
   layout (height_table (HString (code_units ''auto''))) = SINGLE_BLOCK"
proof -
  have "layout (height_table (HNumber (Num 0))) = SINGLE_BLOCK"
    using layout_of_height [of "height_table (HNumber (Num 0))"]
    by (simp add: height_height_table)
  moreover have "layout (height_table (HString (code_units ''120''))) = FIXED_HEADER_SPLIT \<and>
      tableHeight (height_table (HString (code_units ''120''))) = Fin (Num 120)"
    using layout_of_height [of "height_table (HString (code_units ''120''))"]
    by (simp add: height_height_table leading_digits_examples digits_value_120)
  moreover have "layout (height_table HUndefined) = SINGLE_BLOCK"
    using layout_of_height [of "height_table HUndefined"]
    by (simp add: height_height_table)
  moreover have "layout (height_table (HString (code_units ''120px''))) = FIXED_HEADER_SPLIT"
    using layout_of_height [of "height_table (HString (code_units ''120px''))"]
    by (simp add: height_height_table leading_digits_examples digits_value_120)
  moreover have "tableHeight (height_table (HString (code_units ''auto''))) = Fin NaN \<and>
      layout (height_table (HString (code_units ''auto''))) = SINGLE_BLOCK"
    using layout_of_height [of "height_table (HString (code_units ''auto''))"]
    by (simp add: height_height_table leading_digits_examples)
  ultimately show ?thesis by simp
qed

subsection \<open>Empty state\<close>

text \<open>
  Claim C6. The table is empty if and only if the current row slice has no rows and the
  table is not loading: a loading table is never empty, and a table with a row is never
  empty.
\<close>

theorem isEmpty_iff:
  "(isEmpty t \<longleftrightarrow> dataSource t = [] \<and> \<not> loading t) \<and>
   (loading t \<longrightarrow> \<not> isEmpty t) \<and>
   (\<not> loading t \<and> dataSource t \<noteq> [] \<longrightarrow> \<not> isEmpty t)"
  by (simp add: isEmpty_def truthy_array_def)

text \<open>
  Loading with no rows is not empty; not loading with no rows is empty; not loading with
  one row is not empty.
\<close>

theorem isEmpty_iff_witness:
  "\<not> isEmpty (new_table None ([] :: int list) [] HUndefined True) \<and>
   isEmpty (new_table None ([] :: int list) [] HUndefined False) \<and>
   \<not> isEmpty (new_table None [7 :: int] [] HUndefined False)"
proof -
  have d: "dataSource (new_table None rows [] HUndefined l) = rows" for rows :: "int list" and l
    by (simp add: dataSource_no_pagination new_table_def)
  show ?thesis
    using isEmpty_iff [of "new_table None ([] :: int list) [] HUndefined True"]
          isEmpty_iff [of "new_table None ([] :: int list) [] HUndefined False"]
          isEmpty_iff [of "new_table None [7 :: int] [] HUndefined False"]
    by (simp add: d) (simp add: new_table_def)
qed

subsection \<open>Pagination widget events\<close>

lemma first_page_table_simps:
  "pagination first_page_table \<noteq> None" "pageSize first_page_table = Some (Num 2)"
  "current first_page_table = Some (Num 1)" "data first_page_table = [1, 2, 3, 4, 5]"
  "effects first_page_table = []"
  by (simp_all add: first_page_table_def new_table_def no_props_def opt_chain_def
        current_def pageSize_def js_or_def rows5_def)

lemma dataSource_first_page: "dataSource first_page_table = [1, 2]"
  by (simp add: dataSource_def hasPagination_def first_page_table_simps js_slice_def
        relative_index_def)

lemma dataSource_after_current_change:
  "dataSource (onCurrentChange no_props first_page_table (Num 2) page_info) = [3, 4]"
  by (simp add: dataSource_def hasPagination_def js_slice_def relative_index_def
        onCurrentChange_def emitEvent_def Let_def current_def pageSize_def js_or_def
        first_page_table_def new_table_def no_props_def opt_chain_def rows5_def)

text \<open>
  Claim C7. The handler of a "current changed" event sets the internal default current
  page, and the handler of a "page-size changed" event the internal default page size;
  each first emits \<^verbatim>\<open>page-change\<close> with the page info of the event and the row slice of the
  state before the write, and calls the callback of the caller, when there is one, last.
\<close>

theorem pagination_events:
  "defaultCurrent (onCurrentChange pp t cur info) = cur \<and>
   defaultPageSize (onCurrentChange pp t cur info) = defaultPageSize t \<and>
   effects (onCurrentChange pp t cur info) =
     effects t @ Emit ''page-change'' info (dataSource t) #
       (if pg_onCurrentChange pp then [CallOnCurrentChange cur info] else []) \<and>
   defaultPageSize (onPageSizeChange pp t sz info) = sz \<and>
   defaultCurrent (onPageSizeChange pp t sz info) = defaultCurrent t \<and>
   effects (onPageSizeChange pp t sz info) =
     effects t @ Emit ''page-change'' info (dataSource t) #
       (if pg_onPageSizeChange pp then [CallOnPageSizeChange sz info] else [])"
  by (simp add: onCurrentChange_def onPageSizeChange_def emitEvent_def Let_def)

text \<open>
  On page 1 of size 2, the event for page 2 emits the rows of page 1; the rows of page 2
  are the slice only after the handler has run.
\<close>

theorem pagination_events_witness:
  "defaultCurrent (onCurrentChange no_props first_page_table (Num 2) page_info) = Num 2 \<and>
   effects (onCurrentChange no_props first_page_table (Num 2) page_info) =
     [Emit ''page-change'' page_info [1, 2]] \<and>
   dataSource (onCurrentChange no_props first_page_table (Num 2) page_info) = [3, 4]"
  using pagination_events [of no_props first_page_table "Num 2" page_info]
  by (simp add: dataSource_first_page dataSource_after_current_change first_page_table_simps)
     (simp add: no_props_def)

subsection \<open>Scroll affordance\<close>

lemma scrollContainer_rendered: "scrollContainer (rendered_table x) = Some (wide_content x)"
  by (simp add: scrollContainer_def rendered_table_def flat_fixed_table_def new_table_def
        fixedHeader_def tableHeight_def js_or_def)

text \<open>
  Claim C8, as stated, fails: before the table is rendered no ref is set, and the check
  raises a \<^verbatim>\<open>TypeError\<close>.
\<close>

theorem affordance_check_absent_ref_counterexample:
  "scrollContainer flat_fixed_table = None \<and>
   checkScrollableToLeftOrRight flat_fixed_table = Inl TypeError"
  by (simp add: checkScrollableToLeftOrRight_def scrollContainer_def flat_fixed_table_def
        new_table_def)

text \<open>
  Claim C8, amended. The check reads its scroll container without a guard. With the ref
  set, it returns without an error and sets the two flags from the measurements of the
  element: scrollable to the left when \<^verbatim>\<open>scrollLeft > 0\<close>, to the right when
  \<^verbatim>\<open>scrollLeft + clientWidth < scrollWidth\<close>. With the ref absent, it updates no state and
  raises a \<^verbatim>\<open>TypeError\<close>.
\<close>

theorem affordance_check:
  "scrollContainer t =
     refs t (if layout t = FIXED_HEADER_SPLIT then ''scrollBody'' else ''tableContent'') \<and>
   (scrollContainer t = None \<longrightarrow> checkScrollableToLeftOrRight t = Inl TypeError) \<and>
   (\<forall>el. scrollContainer t = Some el \<longrightarrow>
      checkScrollableToLeftOrRight t =
        Inr (t\<lparr>scrollableToLeft := 0 < scrollLeft el,
               scrollableToRight := scrollLeft el + clientWidth el < scrollWidth el\<rparr>))"
  by (simp add: checkScrollableToLeftOrRight_def scrollContainer_def layout_def)

text \<open>
  Content of width 300 in a container of width 100: at offset 0 only the right flag is
  set, at 100 both are, at 200 only the left one.
\<close>

theorem affordance_check_witness:
  "checkScrollableToLeftOrRight (rendered_table 0) =
     Inr ((rendered_table 0)\<lparr>scrollableToLeft := False, scrollableToRight := True\<rparr>) \<and>
   checkScrollableToLeftOrRight (rendered_table 100) =
     Inr ((rendered_table 100)\<lparr>scrollableToLeft := True, scrollableToRight := True\<rparr>) \<and>
   checkScrollableToLeftOrRight (rendered_table 200) =
     Inr ((rendered_table 200)\<lparr>scrollableToLeft := True, scrollableToRight := False\<rparr>)"
  using affordance_check [of "rendered_table 0"] affordance_check [of "rendered_table 100"]
        affordance_check [of "rendered_table 200"]
  by (simp add: scrollContainer_rendered wide_content_def)

subsection \<open>Mount and unmount\<close>

lemma hasFixedColumns_flat_fixed_table: "hasFixedColumns flat_fixed_table"
  by (simp add: hasFixedColumns_def flat_fixed_table_def new_table_def is_fixed_def)

lemma mounted_flat_fixed_table:
  "window_listeners (mounted probe flat_fixed_table) =
     [(''resize'', Debounced 1 (Method ''checkScrollableToLeftOrRight''))] \<and>
   allocated (mounted probe flat_fixed_table) = 2"
  by (simp add: mounted_def hasFixedColumns_flat_fixed_table addWindowResizeEventListener_def
        setTimeout_def debounce_def addEventListener_def Let_def)
     (simp add: flat_fixed_table_def new_table_def)

lemma unmounted_removes_nothing:
  assumes "\<forall>n g. (''resize'', Debounced n g) \<in> set (window_listeners t) \<longrightarrow> n < allocated t"
  shows "window_listeners (unmounted t) = window_listeners t"
proof -
  have "(''resize'', Debounced (allocated t) (Method ''checkScrollableToLeftOrRight''))
          \<notin> set (window_listeners t)"
    using assms by auto
  then show ?thesis
    by (simp add: unmounted_def debounce_def removeEventListener_def)
qed

lemma mounted_registers:
  assumes "hasFixedColumns t"
      and "\<forall>n g. (''resize'', Debounced n g) \<in> set (window_listeners t) \<longrightarrow> n < allocated t"
  shows "window_listeners (mounted scrollDiv t) =
           window_listeners t @ [(''resize'', Debounced (Suc (allocated t)) (Method ''checkScrollableToLeftOrRight''))]"
    and "allocated (mounted scrollDiv t) = Suc (Suc (allocated t))"
proof -
  have "(''resize'', Debounced (Suc (allocated t)) (Method ''checkScrollableToLeftOrRight''))
          \<notin> set (window_listeners t)"
    using assms(2) by auto
  then show "window_listeners (mounted scrollDiv t) =
           window_listeners t @ [(''resize'', Debounced (Suc (allocated t)) (Method ''checkScrollableToLeftOrRight''))]"
    and "allocated (mounted scrollDiv t) = Suc (Suc (allocated t))"
    using assms(1)
    by (simp_all add: mounted_def addWindowResizeEventListener_def setTimeout_def
          debounce_def addEventListener_def Let_def)
qed

lemma listener_left_after_unmount:
  assumes "hasFixedColumns t"
      and "\<forall>n g. (''resize'', Debounced n g) \<in> set (window_listeners t) \<longrightarrow> n < allocated t"
  shows "window_listeners (unmounted (mounted scrollDiv t)) =
           window_listeners t @ [(''resize'', Debounced (Suc (allocated t)) (Method ''checkScrollableToLeftOrRight''))]"
proof -
  have "\<forall>n g. (''resize'', Debounced n g) \<in> set (window_listeners (mounted scrollDiv t)) \<longrightarrow>
          n < allocated (mounted scrollDiv t)"
    using assms(2) by (auto simp: mounted_registers [OF assms] less_Suc_eq)
  then show ?thesis
    by (simp add: unmounted_removes_nothing mounted_registers [OF assms])
qed

text \<open>
  Claim C9 does not hold of the code. Mounting the table with the flat columns A (left),
  B, C (right) registers the wrapper that the first call of \<^verbatim>\<open>debounce\<close> made; unmounting
  calls \<^verbatim>\<open>debounce\<close> again and hands the removal a new wrapper, which is not the
  registered one, and the registered listener stays attached.
\<close>

theorem resize_listener_survives_unmount:
  "window_listeners (mounted probe flat_fixed_table) =
     [(''resize'', Debounced 1 (Method ''checkScrollableToLeftOrRight''))] \<and>
   fst (debounce (mounted probe flat_fixed_table) (Method ''checkScrollableToLeftOrRight'')) =
     Debounced 2 (Method ''checkScrollableToLeftOrRight'') \<and>
   window_listeners (unmounted (mounted probe flat_fixed_table)) =
     [(''resize'', Debounced 1 (Method ''checkScrollableToLeftOrRight''))]"
  by (simp add: unmounted_def debounce_def removeEventListener_def mounted_flat_fixed_table)

end
